theory Spec2Isabelle
  imports Complex_Main "HOL-Library.Word"
begin

section \<open>JavaScript strings\<close>

text \<open>
  A JavaScript string is a sequence of UTF-16 code units; \<open>s.length\<close> counts code units,
  \<open>s.split("")\<close> cuts the string into its code units and \<open>char.charCodeAt()\<close> reads
  the code unit at index 0. Literals of the source that are plain ASCII are written with
  \<open>js\<close>; the icons of the weather table are written out as their code units.
\<close>

type_synonym jsstring = "16 word list"

definition js :: "string \<Rightarrow> jsstring" where
  "js s = map (\<lambda>c. of_nat (of_char c)) s"

section \<open>The helpers of \<open>App.js\<close>\<close>

subsection \<open>\<open>getWeatherIcon\<close>\<close>

text \<open>
  The table \<open>icons\<close> of \<open>getWeatherIcon\<close>: a \<open>Map\<close> from arrays of WMO codes to an
  icon, in insertion order. The icons are emoji, given here as UTF-16 code units.
\<close>

definition icons :: "(int list \<times> jsstring) list" where
  "icons =
    [([0], [0x2600, 0xFE0F]),
     ([1], [0xD83C, 0xDF24]),
     ([2], [0x26C5, 0xFE0F]),
     ([3], [0x2601, 0xFE0F]),
     ([45, 48], [0xD83C, 0xDF2B]),
     ([51, 56, 61, 66, 80], [0xD83C, 0xDF26]),
     ([53, 55, 63, 65, 57, 67, 81, 82], [0xD83C, 0xDF27]),
     ([71, 73, 75, 77, 85, 86], [0xD83C, 0xDF28]),
     ([95], [0xD83C, 0xDF29]),
     ([96, 99], [0x26C8])]"

text \<open>
  \<open>key.includes(wmoCode)\<close>: the argument is any JavaScript value; the model has the
  integers and \<open>undefined\<close> (\<open>None\<close>), which is what \<open>codes.at(i)\<close> hands over out of
  range. No array of integers includes \<open>undefined\<close>.
\<close>

definition array_includes :: "int list \<Rightarrow> int option \<Rightarrow> bool" where
  "array_includes key wmoCode = (case wmoCode of None \<Rightarrow> False | Some c \<Rightarrow> c \<in> set key)"

text \<open>
  \<open>[...icons.keys()].find(...)\<close> returns the first key array that includes the code and
  \<open>icons.get(arr)\<close> the icon stored under that very array; the model finds the entry and
  takes its icon. With no such key the function returns the string \<open>NOT FOUND\<close>.
\<close>

definition getWeatherIcon :: "int option \<Rightarrow> jsstring" where
  "getWeatherIcon wmoCode =
     (case find (\<lambda>entry. array_includes (fst entry) wmoCode) icons of
        None \<Rightarrow> js ''NOT FOUND''
      | Some entry \<Rightarrow> snd entry)"

subsection \<open>\<open>convertToFlag\<close>\<close>

text \<open>
  \<open>toUpperCase\<close> on the ASCII range: the letters \<open>a\<close> to \<open>z\<close> move to \<open>A\<close> to \<open>Z\<close> and
  every other code unit below 128 stays. Outside ASCII the JavaScript function follows
  the Unicode case tables, which this model does not have: there it leaves the code unit
  alone, so the model is exact on ASCII strings only.
\<close>

definition upper_unit :: "16 word \<Rightarrow> 16 word" where
  "upper_unit c = (if 0x61 \<le> c \<and> c \<le> 0x7A then c - 0x20 else c)"

definition toUpperCase :: "jsstring \<Rightarrow> jsstring" where
  "toUpperCase s = map upper_unit s"

text \<open>
  \<open>String.fromCodePoint\<close>: a code point below \<open>0x10000\<close> is one code unit, a larger one
  a surrogate pair, and one above \<open>0x10FFFF\<close> raises a RangeError (\<open>None\<close>).
\<close>

definition fromCodePoint1 :: "nat \<Rightarrow> jsstring option" where
  "fromCodePoint1 cp =
     (if cp < 0x10000 then Some [of_nat cp]
      else if cp \<le> 0x10FFFF then
        Some [of_nat (0xD800 + (cp - 0x10000) div 0x400),
              of_nat (0xDC00 + (cp - 0x10000) mod 0x400)]
      else None)"

fun fromCodePoint :: "nat list \<Rightarrow> jsstring option" where
  "fromCodePoint [] = Some []"
| "fromCodePoint (cp # cps) =
     (case fromCodePoint1 cp of
        None \<Rightarrow> None
      | Some u \<Rightarrow> (case fromCodePoint cps of None \<Rightarrow> None | Some us \<Rightarrow> Some (u @ us)))"

definition codePoints :: "jsstring \<Rightarrow> nat list" where
  "codePoints countryCode = map (\<lambda>char. 127397 + unat char) (toUpperCase countryCode)"

definition convertToFlag :: "jsstring \<Rightarrow> jsstring option" where
  "convertToFlag countryCode = fromCodePoint (codePoints countryCode)"


subsection \<open>\<open>WeatherList\<close> and \<open>Day\<close>\<close>

text \<open>
  The \<open>daily\<close> object of the forecast response: four parallel arrays. Temperatures are
  JSON numbers, read as reals.
\<close>

record daily =
  time :: "jsstring list"
  weathercode :: "int list"
  temperature_2m_max :: "real list"
  temperature_2m_min :: "real list"

text \<open>
  \<open>Array.prototype.at\<close>: a negative index counts from the end; an index outside the
  array gives \<open>undefined\<close> (\<open>None\<close>), it does not raise.
\<close>

definition array_at :: "'a list \<Rightarrow> int \<Rightarrow> 'a option" where
  "array_at xs i =
     (let n = int (length xs); k = (if 0 \<le> i then i else n + i)
      in if k < 0 \<or> n \<le> k then None else Some (xs ! nat k))"

text \<open>The props that \<open>WeatherList\<close> hands to each \<open>Day\<close>, one per element of \<open>dates\<close>.\<close>

record day_props =
  date :: jsstring
  max_prop :: "real option"
  min_prop :: "real option"
  code :: "int option"
  isToday :: bool

definition WeatherList :: "daily \<Rightarrow> day_props list" where
  "WeatherList weather =
     map (\<lambda>(i, d).
            \<lparr>date = d,
             max_prop = array_at (temperature_2m_max weather) (int i),
             min_prop = array_at (temperature_2m_min weather) (int i),
             code = array_at (weathercode weather) (int i),
             isToday = (i = 0)\<rparr>)
         (enumerate 0 (time weather))"

text \<open>
  What \<open>Day\<close> shows: the icon of the code, the label (\<open>formatDay\<close> goes through
  \<open>Intl.DateTimeFormat\<close> and stays symbolic), \<open>Math.floor(min)\<close> and \<open>Math.ceil(max)\<close>.
  Both are \<open>NaN\<close> on \<open>undefined\<close>, shown as the text \<open>NaN\<close>; that is \<open>None\<close> here.
\<close>

datatype day_label = Today | FormatDay jsstring

record day_element =
  icon :: jsstring
  label :: day_label
  floor_min :: "int option"
  ceil_max :: "int option"

definition Day :: "day_props \<Rightarrow> day_element" where
  "Day props =
     \<lparr>icon = getWeatherIcon (code props),
      label = (if isToday props then Today else FormatDay (date props)),
      floor_min = map_option floor (min_prop props),
      ceil_max = map_option ceiling (max_prop props)\<rparr>"

section \<open>The state of \<open>App\<close>\<close>

text \<open>
  The five \<open>useState\<close> cells of \<open>App\<close>. \<open>weather\<close> starts as the empty object \<open>{}\<close>
  (\<open>None\<close>) and is otherwise the \<open>daily\<close> object of a forecast response.
\<close>

record app_state =
  search :: jsstring
  displayLocation :: jsstring
  isLoading :: bool
  weather :: "daily option"
  error :: jsstring

text \<open>The two versions of \<open>App.js\<close>: the first has \<open>LocalWeather\<close>, the second has not.\<close>

datatype version = V1 | V2

text \<open>
  What \<open>App\<close> renders below the search box. A string is truthy when it is not empty;
  \<open>weather.weathercode\<close> is truthy when a forecast is loaded.
\<close>

datatype element =
    Loader
  | ErrorMessage jsstring
  | LocalWeather
  | WeatherListElement "day_element list" jsstring

definition render :: "version \<Rightarrow> app_state \<Rightarrow> element list" where
  "render v s =
     (if isLoading s \<and> error s = [] then [Loader] else []) @
     (if error s \<noteq> [] then [ErrorMessage (error s)] else []) @
     (if v = V1 \<and> \<not> isLoading s \<and> error s = [] \<and> weather s = None
      then [LocalWeather] else []) @
     (case weather s of
        None \<Rightarrow> []
      | Some d \<Rightarrow>
          if error s = [] \<and> \<not> isLoading s
          then [WeatherListElement (map Day (WeatherList d)) (displayLocation s)]
          else [])"

section \<open>Errors, responses and the request chain of \<open>fetchWeatherData\<close>\<close>

record js_error =
  err_name :: jsstring
  err_message :: jsstring

text \<open>\<open>new Error(msg)\<close>.\<close>

definition new_Error :: "string \<Rightarrow> js_error" where
  "new_Error msg = \<lparr>err_name = js ''Error'', err_message = js msg\<rparr>"

text \<open>
  A DOMException of the kind with which an aborted \<open>fetch\<close>, or the body of an aborted
  response, rejects. Its name is fixed by the Fetch standard and is all the code reads;
  the message differs between browsers and this one serves in the examples.
\<close>

definition abort_error :: js_error where
  "abort_error =
     \<lparr>err_name = js ''AbortError'', err_message = js ''The user aborted a request.''\<rparr>"

text \<open>
  The errors the JavaScript engine raises by itself: the TypeError of destructuring
  \<open>undefined\<close>, which \<open>geoData.results.at(0)\<close> is on an empty array, and the RangeError
  of \<open>String.fromCodePoint\<close>. Their names are fixed by the language; the wording of
  their messages is the engine's own and differs from one engine to the next, so the
  engine is a parameter of the model.
\<close>

record engine =
  destructure_message :: jsstring
  range_message :: jsstring

definition destructure_error :: "engine \<Rightarrow> js_error" where
  "destructure_error eng =
     \<lparr>err_name = js ''TypeError'', err_message = destructure_message eng\<rparr>"

definition range_error :: "engine \<Rightarrow> js_error" where
  "range_error eng = \<lparr>err_name = js ''RangeError'', err_message = range_message eng\<rparr>"

text \<open>One entry of \<open>geoData.results\<close>, with the five fields the code destructures.\<close>

record geo_result =
  latitude :: real
  longitude :: real
  timezone :: jsstring
  name :: jsstring
  country_code :: jsstring

text \<open>The bodies of the two lookups of \<open>LocalWeather\<close>.\<close>

record timezone_data =
  timezoneId :: jsstring
  countryCode :: jsstring

record address =
  town :: "jsstring option"
  county :: "jsstring option"

text \<open>
  How an awaited promise settles. A \<open>fetch\<close> resolves with a response, of which the code
  reads \<open>ok\<close>; \<open>json()\<close> resolves with the parsed body, of which the code reads
  \<open>results\<close> (absent: \<open>None\<close>), \<open>daily\<close>, the time zone fields or \<open>address\<close>;
  either may reject with an error. The fields that are read are taken to have the types
  of the providers' interfaces.
\<close>

datatype settlement =
    Response bool
  | GeoData "geo_result list option"
  | WeatherData daily
  | TimezoneData timezone_data
  | PlaceData address
  | Rejected js_error

datatype request =
    GeoRequest jsstring
  | ForecastRequest real real jsstring
  | TimezoneRequest real real
  | ReverseRequest real real

text \<open>The \<open>await\<close> at which a run of \<open>fetchWeatherData\<close> is suspended.\<close>

datatype stage = AwaitGeoFetch | AwaitGeoJson | AwaitWeatherFetch | AwaitWeatherJson | Finished

text \<open>
  The \<open>catch\<close> and \<open>finally\<close> blocks of \<open>fetchWeatherData\<close>: an error whose name is
  not \<open>AbortError\<close> becomes the error message; \<open>isLoading\<close> is reset in every case.
\<close>

definition catch_finally :: "js_error \<Rightarrow> app_state \<Rightarrow> app_state" where
  "catch_finally err s =
     (let s1 = (if err_name err \<noteq> js ''AbortError'' then s\<lparr>error := err_message err\<rparr> else s)
      in s1\<lparr>isLoading := False\<rparr>)"

text \<open>
  \<open>fetchWeatherData\<close> from one \<open>await\<close> to the next, on a given engine: the stage it is
  suspended at, the settlement of the awaited promise, and the state; the result is the
  next stage, the state and the requests issued on the way. \<open>None\<close>: the settlement is not one the awaited
  promise can have, or the run is over.
\<close>

fun resume ::
  "engine \<Rightarrow> stage \<Rightarrow> settlement \<Rightarrow> app_state
     \<Rightarrow> (stage \<times> app_state \<times> request list) option" where
  "resume eng Finished x s = None"
| "resume eng st (Rejected err) s = Some (Finished, catch_finally err s, [])"
| "resume eng AwaitGeoFetch (Response ok) s =
     Some (if \<not> ok
           then (Finished,
                 catch_finally (new_Error ''Something went wrong with fetching geolocation'') s, [])
           else (AwaitGeoJson, s, []))"
| "resume eng AwaitGeoJson (GeoData results) s =
     Some (case results of
             None \<Rightarrow> (Finished, catch_finally (new_Error ''Location not found'') s, [])
           | Some [] \<Rightarrow> (Finished, catch_finally (destructure_error eng) s, [])
           | Some (r # rest) \<Rightarrow>
               (case convertToFlag (country_code r) of
                  None \<Rightarrow> (Finished, catch_finally (range_error eng) s, [])
                | Some flag \<Rightarrow>
                    (AwaitWeatherFetch,
                     s\<lparr>displayLocation := name r @ js '' '' @ flag\<rparr>,
                     [ForecastRequest (latitude r) (longitude r) (timezone r)])))"
| "resume eng AwaitWeatherFetch (Response ok) s =
     Some (if \<not> ok
           then (Finished,
                 catch_finally (new_Error ''Something went wrong with fetching weather'') s, [])
           else (AwaitWeatherJson, s, []))"
| "resume eng AwaitWeatherJson (WeatherData d) s =
     Some (Finished, s\<lparr>weather := Some d, isLoading := False\<rparr>, [])"
| "resume eng st x s = None"

section \<open>The request chain of \<open>LocalWeather\<close>\<close>

text \<open>
  The \<open>await\<close> at which a run of \<open>getCurrentPosition\<close> is suspended; after the time
  zone lookup the run holds \<open>timezoneData\<close>.
\<close>

datatype local_stage =
    AwaitTimezoneFetch
  | AwaitTimezoneJson
  | AwaitPlaceFetch timezone_data
  | AwaitPlaceJson timezone_data
  | AwaitForecastFetch
  | AwaitForecastJson
  | LocalFinished

text \<open>\<open>address.town ?? address.county\<close> inside the template string.\<close>

definition place_name :: "address \<Rightarrow> jsstring" where
  "place_name a =
     (case town a of
        Some t \<Rightarrow> t
      | None \<Rightarrow> (case county a of Some c \<Rightarrow> c | None \<Rightarrow> js ''undefined''))"

text \<open>
  \<open>getCurrentPosition\<close> from one \<open>await\<close> to the next. Its fetches carry no abort signal
  and its \<open>catch\<close> block calls \<open>setError\<close> for every error. The setters are those of
  \<open>App\<close>, handed down as props.
\<close>

fun resume_local ::
  "engine \<Rightarrow> real \<Rightarrow> real \<Rightarrow> local_stage \<Rightarrow> settlement \<Rightarrow> app_state
     \<Rightarrow> (local_stage \<times> app_state \<times> request list) option" where
  "resume_local eng lat lng LocalFinished x s = None"
| "resume_local eng lat lng st (Rejected err) s =
     Some (LocalFinished, s\<lparr>error := err_message err\<rparr>, [])"
| "resume_local eng lat lng AwaitTimezoneFetch (Response ok) s =
     Some (if \<not> ok
           then (LocalFinished,
                 s\<lparr>error := js ''Something went wrong with fetching the current timezone''\<rparr>,
                 [])
           else (AwaitTimezoneJson, s, []))"
| "resume_local eng lat lng AwaitTimezoneJson (TimezoneData tz) s =
     Some (AwaitPlaceFetch tz, s, [ReverseRequest lat lng])"
| "resume_local eng lat lng (AwaitPlaceFetch tz) (Response ok) s =
     Some (if \<not> ok
           then (LocalFinished,
                 s\<lparr>error :=
                     js ''Something went wrong with fetching the current location data''\<rparr>,
                 [])
           else (AwaitPlaceJson tz, s, []))"
| "resume_local eng lat lng (AwaitPlaceJson tz) (PlaceData a) s =
     Some (case convertToFlag (countryCode tz) of
             None \<Rightarrow> (LocalFinished, s\<lparr>error := err_message (range_error eng)\<rparr>, [])
           | Some flag \<Rightarrow>
               (AwaitForecastFetch,
                s\<lparr>displayLocation := place_name a @ js '' '' @ flag\<rparr>,
                [ForecastRequest lat lng (timezoneId tz)]))"
| "resume_local eng lat lng AwaitForecastFetch (Response ok) s =
     Some (if \<not> ok
           then (LocalFinished,
                 s\<lparr>error := js ''Something went wrong with fetching weather''\<rparr>, [])
           else (AwaitForecastJson, s, []))"
| "resume_local eng lat lng AwaitForecastJson (WeatherData d) s =
     Some (LocalFinished, s\<lparr>weather := Some d\<rparr>, [])"
| "resume_local eng lat lng st x s = None"

section \<open>The effect on \<open>search\<close> and the runs of the application\<close>

text \<open>
  One run of \<open>fetchWeatherData\<close>: the \<open>search\<close> its closure holds, where it is
  suspended, and whether the two \<open>AbortController\<close>s of its effect have been aborted.
\<close>

record chain =
  query :: jsstring
  stage :: stage
  geo_aborted :: bool
  weather_aborted :: bool

record local_chain =
  lat :: real
  lng :: real
  local_stage :: local_stage

text \<open>
  The application and its surroundings: the state of \<open>App\<close>, the \<open>location\<close> key of
  \<open>localStorage\<close>, every run of \<open>fetchWeatherData\<close> started so far (its index is its
  generation), the requests sent, the cleanup function the last effect returned (the
  generation whose controllers it aborts), the runs and the \<open>isLoading\<close> flag of
  \<open>LocalWeather\<close>, and the engine the page runs on. That flag only labels the button; it is kept here while the
  component is not rendered, and no statement below reads it.
\<close>

record world =
  app :: app_state
  storage :: "jsstring option"
  chains :: "chain list"
  requests :: "request list"
  cleanup :: "nat option"
  local_chains :: "local_chain list"
  local_isLoading :: bool
  js_engine :: engine

text \<open>The cleanup function: \<open>geoController.abort(); weatherController.abort()\<close>.\<close>

definition abort_chain :: "chain \<Rightarrow> chain" where
  "abort_chain c = c\<lparr>geo_aborted := True, weather_aborted := True\<rparr>"

definition run_cleanup :: "world \<Rightarrow> world" where
  "run_cleanup w =
     (case cleanup w of
        None \<Rightarrow> w
      | Some g \<Rightarrow> w\<lparr>chains := (chains w)[g := abort_chain (chains w ! g)], cleanup := None\<rparr>)"

text \<open>\<open>localStorage.setItem("location", search)\<close>.\<close>

definition persist :: "world \<Rightarrow> world" where
  "persist w = w\<lparr>storage := Some (search (app w))\<rparr>"

text \<open>The branch for a short \<open>search\<close>: \<open>setError(""); setWeather({}); return\<close>.\<close>

definition reset_short :: "world \<Rightarrow> world" where
  "reset_short w = w\<lparr>app := (app w)\<lparr>error := [], weather := None\<rparr>\<rparr>"

text \<open>
  The call \<open>fetchWeatherData()\<close> up to its first \<open>await\<close>: \<open>setError("")\<close>,
  \<open>setIsLoading(true)\<close> and the geocoding request under \<open>geoController.signal\<close>. The
  effect then returns the cleanup function over the controllers of this run.
\<close>

definition fetchWeatherData :: "world \<Rightarrow> world" where
  "fetchWeatherData w =
     w\<lparr>app := (app w)\<lparr>error := [], isLoading := True\<rparr>,
       requests := requests w @ [GeoRequest (search (app w))],
       chains := chains w @
         [\<lparr>query = search (app w), stage = AwaitGeoFetch,
           geo_aborted = False, weather_aborted = False\<rparr>],
       cleanup := Some (length (chains w))\<rparr>"

text \<open>
  The body of the effect with dependency \<open>[search]\<close>. The first version stores the query
  before it looks at its length; the second one stores it after \<open>fetchWeatherData()\<close>,
  behind the early return.
\<close>

definition effect :: "version \<Rightarrow> world \<Rightarrow> world" where
  "effect v w =
     (case v of
        V1 \<Rightarrow>
          (let w1 = persist w
           in if length (search (app w1)) < 2 then reset_short w1 else fetchWeatherData w1)
      | V2 \<Rightarrow>
          (if length (search (app w)) < 2 then reset_short w
           else persist (fetchWeatherData w)))"

text \<open>
  A change of the query: \<open>setSearch(q)\<close>, then React runs the cleanup of the previous
  effect and the effect again.
\<close>

definition onQueryChange :: "version \<Rightarrow> jsstring \<Rightarrow> world \<Rightarrow> world" where
  "onQueryChange v q w = effect v (run_cleanup (w\<lparr>app := (app w)\<lparr>search := q\<rparr>\<rparr>))"

text \<open>
  Mounting \<open>App\<close> on an engine, over a stored query: the first effect reads the stored query (\<open>getItem(...) || ""\<close>) and
  calls \<open>setSearch\<close>; the second effect runs on the initial, empty \<open>search\<close>; if the
  restored query is not empty the component renders again and the effect runs on it.
\<close>

definition init_world :: "engine \<Rightarrow> jsstring option \<Rightarrow> world" where
  "init_world eng stored =
     \<lparr>app = \<lparr>search = [], displayLocation = [], isLoading = False, weather = None, error = []\<rparr>,
      storage = stored, chains = [], requests = [], cleanup = None,
      local_chains = [], local_isLoading = False, js_engine = eng\<rparr>"

definition mount :: "version \<Rightarrow> engine \<Rightarrow> jsstring option \<Rightarrow> world" where
  "mount v eng stored =
     (let restored = (case stored of None \<Rightarrow> [] | Some s \<Rightarrow> s);
          w1 = effect v (init_world eng stored)
      in if restored = [] then w1 else onQueryChange v restored w1)"

text \<open>
  The effect of \<open>LocalWeather\<close> on a new position: \<open>getCurrentPosition()\<close> returns at
  once when \<open>lat\<close> or \<open>lng\<close> is falsy (\<open>undefined\<close> or \<open>0\<close>), and otherwise runs up to
  its first \<open>await\<close>.
\<close>

definition getCurrentPosition :: "real option \<Rightarrow> real option \<Rightarrow> world \<Rightarrow> world" where
  "getCurrentPosition plat plng w =
     (case (plat, plng) of
        (Some x, Some y) \<Rightarrow>
          if x = 0 \<or> y = 0 then w
          else w\<lparr>app := (app w)\<lparr>error := []\<rparr>,
                 local_isLoading := True,
                 requests := requests w @ [TimezoneRequest x y],
                 local_chains := local_chains w @
                   [\<lparr>lat = x, lng = y, local_stage = AwaitTimezoneFetch\<rparr>]\<rparr>
      | _ \<Rightarrow> w)"

text \<open>
  Which settlements the runtime can hand to a run. It is single-threaded: a settlement
  is handled either before the cleanup ran, or after it. After \<open>abort()\<close> a pending
  \<open>fetch\<close> rejects with an \<open>AbortError\<close>, and so does the \<open>json()\<close> of a response whose
  request was aborted; a \<open>fetch\<close> started under an aborted signal rejects at once.
\<close>

definition awaited_aborted :: "chain \<Rightarrow> bool" where
  "awaited_aborted c =
     (case stage c of
        AwaitGeoFetch \<Rightarrow> geo_aborted c
      | AwaitGeoJson \<Rightarrow> geo_aborted c
      | AwaitWeatherFetch \<Rightarrow> weather_aborted c
      | AwaitWeatherJson \<Rightarrow> weather_aborted c
      | Finished \<Rightarrow> False)"

definition is_abort :: "settlement \<Rightarrow> bool" where
  "is_abort x = (case x of Rejected e \<Rightarrow> err_name e = js ''AbortError'' | _ \<Rightarrow> False)"

definition deliverable :: "chain \<Rightarrow> settlement \<Rightarrow> bool" where
  "deliverable c x = (if awaited_aborted c then is_abort x else True)"

text \<open>The continuation of run \<open>g\<close> of \<open>fetchWeatherData\<close> on a settlement.\<close>

definition settle :: "nat \<Rightarrow> settlement \<Rightarrow> world \<Rightarrow> world option" where
  "settle g x w =
     (case resume (js_engine w) (stage (chains w ! g)) x (app w) of
        None \<Rightarrow> None
      | Some (st, s, rs) \<Rightarrow>
          Some (w\<lparr>app := s,
                  chains := (chains w)[g := (chains w ! g)\<lparr>stage := st\<rparr>],
                  requests := requests w @ rs\<rparr>))"

definition settle_local :: "nat \<Rightarrow> settlement \<Rightarrow> world \<Rightarrow> world option" where
  "settle_local k x w =
     (let c = local_chains w ! k
      in case resume_local (js_engine w) (lat c) (lng c) (local_stage c) x (app w) of
           None \<Rightarrow> None
         | Some (st, s, rs) \<Rightarrow>
             Some (w\<lparr>app := s,
                     local_chains := (local_chains w)[k := c\<lparr>local_stage := st\<rparr>],
                     local_isLoading := (if st = LocalFinished then False else local_isLoading w),
                     requests := requests w @ rs\<rparr>))"

text \<open>
  What can happen to the mounted application: the user changes the query; an awaited
  promise of a run settles; the browser reports a position to \<open>LocalWeather\<close> (first
  version only, while the component is rendered). \<open>None\<close>: the event cannot happen in
  this world.
\<close>

datatype event =
    QueryChange jsstring
  | Settle nat settlement
  | Locate "real option" "real option"
  | SettleLocal nat settlement

fun fire :: "version \<Rightarrow> event \<Rightarrow> world \<Rightarrow> world option" where
  "fire v (QueryChange q) w =
     (if q = search (app w) then None else Some (onQueryChange v q w))"
| "fire v (Settle g x) w =
     (if g < length (chains w) \<and> deliverable (chains w ! g) x then settle g x w else None)"
| "fire v (Locate plat plng) w =
     (if LocalWeather \<in> set (render v (app w))
      then Some (getCurrentPosition plat plng w) else None)"
| "fire v (SettleLocal k x) w =
     (if k < length (local_chains w) then settle_local k x w else None)"

fun run :: "version \<Rightarrow> event list \<Rightarrow> world \<Rightarrow> world option" where
  "run v [] w = Some w"
| "run v (e # es) w = (case fire v e w of None \<Rightarrow> None | Some w' \<Rightarrow> run v es w')"

text \<open>
  What the application holds, and what it shows, after a list of events from a fresh
  mount over a stored query.
\<close>

definition outcome ::
  "version \<Rightarrow> engine \<Rightarrow> event list \<Rightarrow> jsstring option \<Rightarrow> app_state option" where
  "outcome v eng es stored = map_option app (run v es (mount v eng stored))"

definition screen ::
  "version \<Rightarrow> engine \<Rightarrow> event list \<Rightarrow> jsstring option \<Rightarrow> element list option" where
  "screen v eng es stored = map_option (render v) (outcome v eng es stored)"

text \<open>
  An engine for the examples. Where an example does not reach an error of the engine,
  its messages play no part.
\<close>

definition sample_engine :: engine where
  "sample_engine =
     \<lparr>destructure_message = js ''geoData.results.at(...) is undefined'',
      range_message = js ''invalid code point''\<rparr>"

section \<open>Notions of the specification\<close>

text \<open>
  The specification speaks of the trimmed length of a query. \<open>String.prototype.trim\<close>
  removes white space and line terminators from both ends; the source never calls it.
\<close>

definition is_whitespace :: "16 word \<Rightarrow> bool" where
  "is_whitespace c =
     (c \<in> {0x09, 0x0A, 0x0B, 0x0C, 0x0D, 0x20, 0xA0, 0x1680, 0x2028, 0x2029, 0x202F,
            0x205F, 0x3000, 0xFEFF} \<or> (0x2000 \<le> c \<and> c \<le> 0x200A))"

definition spec_trim :: "jsstring \<Rightarrow> jsstring" where
  "spec_trim s = rev (dropWhile is_whitespace (rev (dropWhile is_whitespace s)))"

text \<open>
  A letter of a two-letter country code; a small letter \<open>c\<close>, whose capital is the
  code unit \<open>c - 0x20\<close>; and the regional indicator symbol of a capital letter: the
  code point \<open>U+1F1E6\<close> plus the letter's distance from \<open>A\<close>, as a surrogate pair.
\<close>

definition ascii_letter :: "16 word \<Rightarrow> bool" where
  "ascii_letter c = ((0x41 \<le> c \<and> c \<le> 0x5A) \<or> (0x61 \<le> c \<and> c \<le> 0x7A))"

definition small_letter :: "16 word \<Rightarrow> bool" where
  "small_letter c = (0x61 \<le> c \<and> c \<le> 0x7A)"

definition regional_indicator :: "16 word \<Rightarrow> jsstring" where
  "regional_indicator c = [0xD83C, 0xDDE6 + (c - 0x41)]"

text \<open>
  The invariant of the runs: every run of \<open>fetchWeatherData\<close> other than the one the
  current cleanup function belongs to has had both its controllers aborted.
\<close>

definition superseded_aborted :: "world \<Rightarrow> bool" where
  "superseded_aborted w =
     (\<forall>g < length (chains w). cleanup w \<noteq> Some g \<longrightarrow>
        geo_aborted (chains w ! g) \<and> weather_aborted (chains w ! g))"

lemmas world_defs =
  outcome_def screen_def mount_def init_world_def onQueryChange_def effect_def run_cleanup_def
  abort_chain_def persist_def reset_short_def fetchWeatherData_def settle_def
  settle_local_def getCurrentPosition_def deliverable_def awaited_aborted_def is_abort_def
  catch_finally_def new_Error_def abort_error_def render_def js_def Let_def
  sample_engine_def destructure_error_def range_error_def

section \<open>The icon table and the flag\<close>

lemma icons_miss:
  assumes "\<forall>entry \<in> set icons. wmo \<notin> set (fst entry)"
  shows "getWeatherIcon (Some wmo) = js ''NOT FOUND''"
proof -
  have "find (\<lambda>entry. array_includes (fst entry) (Some wmo)) icons = None"
    using assms by (auto simp: find_None_iff array_includes_def)
  then show ?thesis by (simp add: getWeatherIcon_def)
qed

lemma icons_hit:
  "(key, ic) \<in> set icons \<Longrightarrow> wmo \<in> set key \<Longrightarrow> getWeatherIcon (Some wmo) = ic"
  unfolding getWeatherIcon_def array_includes_def icons_def
  by auto

lemma getWeatherIcon_undefined: "getWeatherIcon None = js ''NOT FOUND''"
  by (simp add: getWeatherIcon_def array_includes_def icons_def)

text \<open>
  Claim C9. \<open>getWeatherIcon\<close> is total on the integer codes: a code that lies in a key
  group of the table gets the icon of that group, a code in no group gets the string
  \<open>NOT FOUND\<close>, and code 0 gets the sun.
\<close>

theorem getWeatherIcon_total:
  "((key, ic) \<in> set icons \<and> wmo \<in> set key \<longrightarrow> getWeatherIcon (Some wmo) = ic) \<and>
   ((\<forall>entry \<in> set icons. wmo \<notin> set (fst entry)) \<longrightarrow>
      getWeatherIcon (Some wmo) = js ''NOT FOUND'') \<and>
   getWeatherIcon (Some 0) = [0x2600, 0xFE0F]"
  using icons_hit[of key ic wmo] icons_miss[of wmo]
  by (simp add: getWeatherIcon_def icons_def array_includes_def)

text \<open>Code 48 is fog; code 4 is in no group.\<close>

theorem getWeatherIcon_total_witness:
  "([45, 48], [0xD83C, 0xDF2B]) \<in> set icons \<and> (48::int) \<in> set [45, 48] \<and>
   getWeatherIcon (Some 48) = [0xD83C, 0xDF2B] \<and>
   list_all (\<lambda>entry. (4::int) \<notin> set (fst entry)) icons \<and>
   getWeatherIcon (Some 4) = js ''NOT FOUND''"
proof -
  have miss: "\<forall>entry \<in> set icons. (4::int) \<notin> set (fst entry)"
    by (simp add: icons_def)
  have hit: "([45, 48], [0xD83C, 0xDF2B]) \<in> set icons \<and> (48::int) \<in> set [45, 48]"
    by (simp add: icons_def)
  from getWeatherIcon_total[of "[45, 48]" "[0xD83C, 0xDF2B]" 48] hit
  have fog: "getWeatherIcon (Some 48) = [0xD83C, 0xDF2B]" by blast
  from getWeatherIcon_total[of "[]" "[]" 4] miss
  have none: "getWeatherIcon (Some 4) = js ''NOT FOUND''" by blast
  from hit fog none miss show ?thesis by (simp add: list_all_iff)
qed

lemma upper_unit_idem: "upper_unit (upper_unit c) = upper_unit c"
  unfolding upper_unit_def by (auto simp: word_le_nat_alt unat_sub_if')

lemma upper_unit_range:
  "ascii_letter c \<Longrightarrow> 0x41 \<le> upper_unit c \<and> upper_unit c \<le> 0x5A"
  unfolding upper_unit_def ascii_letter_def
  apply (auto simp: word_le_nat_alt)
   apply unat_arith+
  done

lemma fromCodePoint1_capital:
  assumes "0x41 \<le> c" and "c \<le> (0x5A::16 word)"
  shows "fromCodePoint1 (127397 + unat c) = Some (regional_indicator c)"
proof -
  let ?u = "unat c"
  have u: "65 \<le> ?u" "?u \<le> 90" using assms by (simp_all add: word_le_nat_alt)
  have d: "(127397 + ?u - 0x10000) div 0x400 = 60" using u by simp
  have "127397 + ?u - 0x10000 = (421 + ?u) + 60 * 1024" using u by simp
  then have "(127397 + ?u - 0x10000) mod 1024 = (421 + ?u) mod 1024"
    by (simp only: mod_mult_self1)
  then have m: "(127397 + ?u - 0x10000) mod 0x400 = 421 + ?u" using u by simp
  show ?thesis unfolding fromCodePoint1_def regional_indicator_def
    using u d m by simp
qed

lemma convertToFlag_pair:
  assumes "ascii_letter a" and "ascii_letter b"
  shows "convertToFlag [a, b] =
           Some (regional_indicator (upper_unit a) @ regional_indicator (upper_unit b))"
  using upper_unit_range[OF assms(1)] upper_unit_range[OF assms(2)]
  by (simp add: convertToFlag_def codePoints_def toUpperCase_def fromCodePoint1_capital)

text \<open>
  A code unit plus 127397 is never above \<open>0x10FFFF\<close>, so \<open>convertToFlag\<close> raises no
  RangeError, whatever string it is given.
\<close>

lemma fromCodePoint1_unit: "fromCodePoint1 (127397 + unat (c::16 word)) \<noteq> None"
proof -
  have "unat c < 2 ^ 16" using unsigned_less[of c] by simp
  then show ?thesis by (simp add: fromCodePoint1_def)
qed

lemma fromCodePoint_units:
  "fromCodePoint (map (\<lambda>char. 127397 + unat (char::16 word)) s) \<noteq> None"
proof (induction s)
  case Nil
  then show ?case by simp
next
  case (Cons c s)
  then show ?case using fromCodePoint1_unit[of c] by (auto split: option.splits)
qed

lemma convertToFlag_total: "convertToFlag s \<noteq> None"
  using fromCodePoint_units[of "toUpperCase s"]
  by (simp add: convertToFlag_def codePoints_def)

lemma small_letter_capital:
  assumes "small_letter c"
  shows "ascii_letter c \<and> ascii_letter (c - 0x20) \<and>
         upper_unit c = c - 0x20 \<and> upper_unit (c - 0x20) = c - 0x20"
proof -
  have u: "97 \<le> unat c" "unat c \<le> 122"
    using assms by (simp_all add: small_letter_def word_le_nat_alt)
  have m: "unat (c - 0x20) = unat c - 32" using u by (simp add: unat_sub_if')
  have cap: "0x41 \<le> c - 0x20" "c - 0x20 \<le> 0x5A" "\<not> 0x61 \<le> c - 0x20"
    using u m by (simp_all add: word_le_nat_alt)
  show ?thesis using assms cap by (simp add: small_letter_def ascii_letter_def upper_unit_def)
qed

text \<open>
  Claim C10. \<open>convertToFlag\<close> does not depend on the case of the letters. A country
  code of two ASCII letters is one of the four spellings of a pair of small letters
  \<open>a\<close>, \<open>b\<close>, whose capitals are \<open>a - 0x20\<close> and \<open>b - 0x20\<close>. \<open>toUpperCase\<close> turns
  each spelling into the capital one, \<open>convertToFlag\<close> gives on each spelling what it
  gives on the capital one, and that is the pair of regional indicator symbols of the
  two capital letters.
\<close>

theorem convertToFlag_case_invariant:
  assumes "small_letter a" and "small_letter b"
  shows "toUpperCase [a, b] = [a - 0x20, b - 0x20] \<and>
         toUpperCase [a - 0x20, b] = [a - 0x20, b - 0x20] \<and>
         toUpperCase [a, b - 0x20] = [a - 0x20, b - 0x20] \<and>
         toUpperCase [a - 0x20, b - 0x20] = [a - 0x20, b - 0x20] \<and>
         convertToFlag [a, b] = convertToFlag [a - 0x20, b - 0x20] \<and>
         convertToFlag [a - 0x20, b] = convertToFlag [a - 0x20, b - 0x20] \<and>
         convertToFlag [a, b - 0x20] = convertToFlag [a - 0x20, b - 0x20] \<and>
         convertToFlag [a - 0x20, b - 0x20] =
           Some (regional_indicator (a - 0x20) @ regional_indicator (b - 0x20))"
proof -
  note A = small_letter_capital[OF assms(1)]
  note B = small_letter_capital[OF assms(2)]
  have up: "toUpperCase [a, b] = [a - 0x20, b - 0x20]"
    "toUpperCase [a - 0x20, b] = [a - 0x20, b - 0x20]"
    "toUpperCase [a, b - 0x20] = [a - 0x20, b - 0x20]"
    "toUpperCase [a - 0x20, b - 0x20] = [a - 0x20, b - 0x20]"
    using A B by (simp_all add: toUpperCase_def)
  have flag: "convertToFlag [a, b] =
                Some (regional_indicator (a - 0x20) @ regional_indicator (b - 0x20))"
    "convertToFlag [a - 0x20, b] =
       Some (regional_indicator (a - 0x20) @ regional_indicator (b - 0x20))"
    "convertToFlag [a, b - 0x20] =
       Some (regional_indicator (a - 0x20) @ regional_indicator (b - 0x20))"
    "convertToFlag [a - 0x20, b - 0x20] =
       Some (regional_indicator (a - 0x20) @ regional_indicator (b - 0x20))"
    using A B convertToFlag_pair[of a b] convertToFlag_pair[of "a - 0x20" b]
      convertToFlag_pair[of a "b - 0x20"] convertToFlag_pair[of "a - 0x20" "b - 0x20"]
    by simp_all
  show ?thesis using up flag by simp
qed

text \<open>The codes \<open>de\<close>, \<open>De\<close>, \<open>dE\<close> and \<open>DE\<close> all give the flag of \<open>DE\<close>.\<close>

theorem convertToFlag_case_invariant_witness:
  "small_letter 0x64 \<and> small_letter 0x65 \<and>
   toUpperCase (js ''de'') = js ''DE'' \<and>
   convertToFlag (js ''de'') = convertToFlag (js ''DE'') \<and>
   convertToFlag (js ''De'') = convertToFlag (js ''DE'') \<and>
   convertToFlag (js ''dE'') = convertToFlag (js ''DE'') \<and>
   convertToFlag (js ''DE'') = Some [0xD83C, 0xDDE9, 0xD83C, 0xDDEA]"
  using convertToFlag_case_invariant[of "0x64" "0x65"]
  by (simp add: small_letter_def js_def regional_indicator_def)

section \<open>Superseded runs are aborted runs\<close>

lemma run_cleanup_aborts:
  assumes "superseded_aborted w"
  shows "cleanup (run_cleanup w) = None \<and> superseded_aborted (run_cleanup w)"
proof (cases "cleanup w")
  case None
  then show ?thesis using assms by (simp add: run_cleanup_def)
next
  case (Some c)
  have "geo_aborted (chains (run_cleanup w) ! g) \<and> weather_aborted (chains (run_cleanup w) ! g)"
    if "g < length (chains w)" for g
  proof (cases "g = c")
    case True
    then show ?thesis using that Some by (simp add: run_cleanup_def abort_chain_def)
  next
    case False
    then show ?thesis using that Some assms
      by (simp add: run_cleanup_def superseded_aborted_def)
  qed
  then show ?thesis using Some by (simp add: run_cleanup_def superseded_aborted_def)
qed

lemma set_search_inv:
  "superseded_aborted w \<Longrightarrow> superseded_aborted (w\<lparr>app := (app w)\<lparr>search := q\<rparr>\<rparr>)"
  by (simp add: superseded_aborted_def)

lemma persist_inv: "superseded_aborted (persist w) = superseded_aborted w"
  by (simp add: superseded_aborted_def persist_def)

lemma reset_short_inv: "superseded_aborted (reset_short w) = superseded_aborted w"
  by (simp add: superseded_aborted_def reset_short_def)

lemma fetchWeatherData_inv:
  assumes "superseded_aborted w" and "cleanup w = None"
  shows "superseded_aborted (fetchWeatherData w)"
  using assms
  by (simp add: superseded_aborted_def fetchWeatherData_def nth_append less_Suc_eq)

lemma effect_inv:
  assumes "superseded_aborted w" and "cleanup w = None"
  shows "superseded_aborted (effect v w)"
proof (cases v)
  case V1
  have "cleanup (persist w) = None" using assms(2) by (simp add: persist_def)
  then show ?thesis using V1 assms(1)
    by (simp add: effect_def Let_def reset_short_inv persist_inv fetchWeatherData_inv)
next
  case V2
  then show ?thesis using assms
    by (simp add: effect_def reset_short_inv persist_inv fetchWeatherData_inv)
qed

lemma onQueryChange_inv:
  "superseded_aborted w \<Longrightarrow> superseded_aborted (onQueryChange v q w)"
  unfolding onQueryChange_def
  using run_cleanup_aborts[OF set_search_inv, of w q] effect_inv by simp

lemma init_inv:
  "superseded_aborted (init_world eng stored) \<and> cleanup (init_world eng stored) = None"
  by (simp add: superseded_aborted_def init_world_def)

lemma mount_inv: "superseded_aborted (mount v eng stored)"
  using init_inv[of eng stored] effect_inv[of "init_world eng stored" v]
  by (simp add: mount_def Let_def onQueryChange_inv)

lemma nth_update_stage:
  "k < length cs \<Longrightarrow>
   geo_aborted (cs[g := (cs ! g)\<lparr>stage := a\<rparr>] ! k) = geo_aborted (cs ! k) \<and>
   weather_aborted (cs[g := (cs ! g)\<lparr>stage := a\<rparr>] ! k) = weather_aborted (cs ! k)"
  by (cases "k = g") simp_all

lemma settle_inv:
  assumes "superseded_aborted w" and "settle g x w = Some w'"
  shows "superseded_aborted w'"
proof -
  from assms(2) obtain st s rs where
    w': "w' = w\<lparr>app := s, chains := (chains w)[g := (chains w ! g)\<lparr>stage := st\<rparr>],
                    requests := requests w @ rs\<rparr>"
    by (auto simp: settle_def split: option.splits)
  show ?thesis using assms(1) unfolding w' superseded_aborted_def
    by (simp add: nth_update_stage)
qed

lemma settle_local_inv:
  assumes "superseded_aborted w" and "settle_local k x w = Some w'"
  shows "superseded_aborted w'"
proof -
  from assms(2) have "chains w' = chains w \<and> cleanup w' = cleanup w"
    by (auto simp: settle_local_def Let_def split: option.splits)
  then show ?thesis using assms(1) by (simp add: superseded_aborted_def)
qed

lemma getCurrentPosition_chains:
  "chains (getCurrentPosition plat plng w) = chains w \<and>
   cleanup (getCurrentPosition plat plng w) = cleanup w"
  by (simp add: getCurrentPosition_def split: option.splits)

lemma getCurrentPosition_inv:
  "superseded_aborted w \<Longrightarrow> superseded_aborted (getCurrentPosition plat plng w)"
  by (simp add: superseded_aborted_def getCurrentPosition_chains)

lemma fire_inv:
  assumes "superseded_aborted w" and "fire v e w = Some w'"
  shows "superseded_aborted w'"
proof (cases e)
  case (QueryChange q)
  then show ?thesis using assms onQueryChange_inv[of w v q] by (simp split: if_splits)
next
  case (Settle g x)
  then show ?thesis using assms settle_inv[of w g x w'] by (simp split: if_splits)
next
  case (Locate plat plng)
  then show ?thesis using assms getCurrentPosition_inv[of w plat plng]
    by (simp split: if_splits)
next
  case (SettleLocal k x)
  then show ?thesis using assms settle_local_inv[of w k x w'] by (simp split: if_splits)
qed

lemma run_inv:
  "superseded_aborted w \<Longrightarrow> run v es w = Some w' \<Longrightarrow> superseded_aborted w'"
proof (induction es arbitrary: w)
  case Nil
  then show ?case by simp
next
  case (Cons e es)
  from Cons.prems(2) obtain w1 where f: "fire v e w = Some w1" and r: "run v es w1 = Some w'"
    by (auto split: option.splits)
  from Cons.IH[OF fire_inv[OF Cons.prems(1) f] r] show ?case .
qed

section \<open>What an aborted run does when it settles\<close>

lemma catch_finally_abort:
  "err_name e = js ''AbortError'' \<Longrightarrow> catch_finally e s = s\<lparr>isLoading := False\<rparr>"
  by (simp add: catch_finally_def)

lemma resume_abort:
  assumes "is_abort x" and "resume eng st x s = Some (st', s', rs)"
  shows "st' = Finished \<and> s' = s\<lparr>isLoading := False\<rparr> \<and> rs = []"
proof -
  from assms(1) obtain e where x: "x = Rejected e" and e: "err_name e = js ''AbortError''"
    by (auto simp: is_abort_def split: settlement.splits)
  show ?thesis using assms(2) x catch_finally_abort[OF e] by (cases st) auto
qed

lemma settle_aborted:
  assumes "g < length (chains w)" and "awaited_aborted (chains w ! g)"
    and "fire v (Settle g x) w = Some w'"
  shows "app w' = (app w)\<lparr>isLoading := False\<rparr> \<and> requests w' = requests w"
proof -
  from assms have ab: "is_abort x" and s: "settle g x w = Some w'"
    by (auto simp: deliverable_def split: if_splits)
  from s obtain st s' rs where
    r: "resume (js_engine w) (stage (chains w ! g)) x (app w) = Some (st, s', rs)"
    and w': "w' = w\<lparr>app := s', chains := (chains w)[g := (chains w ! g)\<lparr>stage := st\<rparr>],
                    requests := requests w @ rs\<rparr>"
    by (auto simp: settle_def split: option.splits)
  from resume_abort[OF ab r] w' show ?thesis by simp
qed

lemma superseded_awaited_aborted:
  assumes "superseded_aborted w" and "g < length (chains w)" and "cleanup w \<noteq> Some g"
    and "stage (chains w ! g) \<noteq> Finished"
  shows "awaited_aborted (chains w ! g)"
  using assms by (auto simp: superseded_aborted_def awaited_aborted_def split: stage.splits)

lemma fire_settle_not_finished:
  "fire v (Settle g x) w = Some w' \<Longrightarrow>
   g < length (chains w) \<and> stage (chains w ! g) \<noteq> Finished"
  by (auto simp: settle_def split: if_splits option.splits)

text \<open>
  The code compares no generation: \<open>resume\<close> never reads the flags of the controllers.
  Were a parsed body handed to a run after its controllers were aborted, the run would
  write the display location; what keeps a superseded run from writing is that the
  runtime rejects its promises.
\<close>

lemma no_generation_check:
  "\<exists>flag. convertToFlag (country_code r) = Some flag \<and>
     resume eng AwaitGeoJson (GeoData (Some [r])) s =
       Some (AwaitWeatherFetch, s\<lparr>displayLocation := name r @ js '' '' @ flag\<rparr>,
             [ForecastRequest (latitude r) (longitude r) (timezone r)])"
  using convertToFlag_total[of "country_code r"] by (auto split: option.splits)

section \<open>The claims on the request lifecycle\<close>

text \<open>
  What a superseded run leaves alone. In every world the application can reach from a
  mount, when a run of \<open>fetchWeatherData\<close> that is not the current generation settles
  (the runtime rejects its awaited promise with an AbortError), \<open>weather\<close>,
  \<open>displayLocation\<close> and \<open>error\<close> stay as they are and no request is sent.
\<close>

lemma superseded_chain_keeps_location_state:
  assumes "run v es (mount v eng stored) = Some w"
    and "cleanup w \<noteq> Some g"
    and "fire v (Settle g x) w = Some w'"
  shows "weather (app w') = weather (app w) \<and>
         displayLocation (app w') = displayLocation (app w) \<and>
         error (app w') = error (app w) \<and>
         requests w' = requests w"
proof -
  have inv: "superseded_aborted w" using run_inv[OF mount_inv assms(1)] .
  from fire_settle_not_finished[OF assms(3)]
  have g: "g < length (chains w)" and nf: "stage (chains w ! g) \<noteq> Finished" by simp_all
  have "awaited_aborted (chains w ! g)"
    using superseded_awaited_aborted[OF inv g assms(2) nf] .
  from settle_aborted[OF g this assms(3)] show ?thesis by simp
qed

text \<open>The query \<open>Pa\<close>, then \<open>Paris\<close>; then the aborted run of \<open>Pa\<close> settles.\<close>

lemma superseded_chain_keeps_location_state_example:
  "\<exists>w w'. run V1 [QueryChange (js ''Pa''), QueryChange (js ''Paris'')] (mount V1 sample_engine None) = Some w \<and>
     cleanup w \<noteq> Some 0 \<and>
     fire V1 (Settle 0 (Rejected abort_error)) w = Some w' \<and>
     weather (app w') = weather (app w) \<and>
     displayLocation (app w') = displayLocation (app w) \<and>
     error (app w') = error (app w) \<and>
     requests w' = requests w"
proof -
  let ?w = "onQueryChange V1 (js ''Paris'') (onQueryChange V1 (js ''Pa'') (mount V1 sample_engine None))"
  have r: "run V1 [QueryChange (js ''Pa''), QueryChange (js ''Paris'')] (mount V1 sample_engine None) = Some ?w"
    by (simp add: world_defs)
  have c: "cleanup ?w \<noteq> Some 0" by (simp add: world_defs)
  obtain w' where f: "fire V1 (Settle 0 (Rejected abort_error)) ?w = Some w'"
    by (simp add: world_defs)
  from superseded_chain_keeps_location_state[OF r c f] r c f show ?thesis by blast
qed

text \<open>
  Claim C1 fails on the code. The \<open>catch\<close> block of \<open>fetchWeatherData\<close> skips an
  AbortError, but the \<open>finally\<close> block beside it runs \<open>setIsLoading(false)\<close> for the
  aborted run too, so the completion of a superseded run is observable. After \<open>Pa\<close>
  and then \<open>Paris\<close> the loader is shown; when the aborted run of \<open>Pa\<close> settles, the
  loader goes, although the run of \<open>Paris\<close> is still in flight.
\<close>

theorem superseded_completion_hides_loader:
  "screen V1 sample_engine [QueryChange (js ''Pa''), QueryChange (js ''Paris'')] None = Some [Loader] \<and>
   screen V1 sample_engine [QueryChange (js ''Pa''), QueryChange (js ''Paris''),
              Settle 0 (Rejected abort_error)] None = Some [LocalWeather] \<and>
   screen V2 sample_engine [QueryChange (js ''Pa''), QueryChange (js ''Paris'')] None = Some [Loader] \<and>
   screen V2 sample_engine [QueryChange (js ''Pa''), QueryChange (js ''Paris''),
              Settle 0 (Rejected abort_error)] None = Some []"
  by (simp add: world_defs)

text \<open>
  The same reset shows a stale forecast. With the forecast of \<open>Berlin\<close> loaded, the
  user types \<open>Paris\<close>, whose run gets as far as the display location, and then
  \<open>Pari\<close>. When the aborted run of \<open>Paris\<close> settles, the forecast of \<open>Berlin\<close> is
  shown under the name of \<open>Paris\<close> while the run of \<open>Pari\<close> is in flight.
\<close>

lemma stale_forecast_under_new_name:
  "outcome V2 sample_engine
     [QueryChange (js ''Berlin''), Settle 0 (Response True),
      Settle 0 (GeoData (Some [\<lparr>latitude = 52.52, longitude = 13.41,
                                timezone = js ''Europe/Berlin'', name = js ''Berlin'',
                                country_code = js ''DE''\<rparr>])),
      Settle 0 (Response True),
      Settle 0 (WeatherData \<lparr>time = [js ''2024-01-01''], weathercode = [3],
                             temperature_2m_max = [4.5], temperature_2m_min = [1.5]\<rparr>),
      QueryChange (js ''Paris''), Settle 1 (Response True),
      Settle 1 (GeoData (Some [\<lparr>latitude = 48.8566, longitude = 2.3522,
                                timezone = js ''Europe/Paris'', name = js ''Paris'',
                                country_code = js ''FR''\<rparr>])),
      QueryChange (js ''Pari''), Settle 1 (Rejected abort_error)] None =
   Some \<lparr>search = js ''Pari'',
         displayLocation = js ''Paris '' @ [0xD83C, 0xDDEB, 0xD83C, 0xDDF7],
         isLoading = False,
         weather = Some \<lparr>time = [js ''2024-01-01''], weathercode = [3],
                          temperature_2m_max = [4.5], temperature_2m_min = [1.5]\<rparr>,
         error = []\<rparr>"
  by (simp add: world_defs convertToFlag_def codePoints_def toUpperCase_def
        upper_unit_def fromCodePoint1_def)

text \<open>
  Claim C2, as the code has it. The effect measures \<open>search.length\<close>, not a trimmed
  length. For a query of fewer than two code units, a query change clears the error and
  the forecast, sends no request and starts no run, and leaves no cleanup function
  behind; \<open>isLoading\<close> is not written, so the loader stays until the aborted run resets
  it.
\<close>

theorem short_query_resets:
  assumes "length q < 2"
  shows "error (app (onQueryChange v q w)) = [] \<and>
         weather (app (onQueryChange v q w)) = None \<and>
         requests (onQueryChange v q w) = requests w \<and>
         length (chains (onQueryChange v q w)) = length (chains w) \<and>
         cleanup (onQueryChange v q w) = None \<and>
         isLoading (app (onQueryChange v q w)) = isLoading (app w) \<and>
         render v (app (onQueryChange v q w)) =
           (if isLoading (app w) then [Loader] else if v = V1 then [LocalWeather] else [])"
  using assms
  by (cases v)
     (simp_all add: onQueryChange_def effect_def run_cleanup_def persist_def reset_short_def
          render_def Let_def split: option.splits)

text \<open>After \<open>Pa\<close>, the query \<open>P\<close>: nothing but the request for \<open>Pa\<close> was sent.\<close>

theorem short_query_resets_witness:
  "length (js ''P'') < 2 \<and>
   error (app (onQueryChange V1 (js ''P'') (onQueryChange V1 (js ''Pa'') (mount V1 sample_engine None)))) = [] \<and>
   weather (app (onQueryChange V1 (js ''P'') (onQueryChange V1 (js ''Pa'') (mount V1 sample_engine None)))) =
     None \<and>
   requests (onQueryChange V1 (js ''P'') (onQueryChange V1 (js ''Pa'') (mount V1 sample_engine None))) =
     [GeoRequest (js ''Pa'')]"
  using short_query_resets[of "js ''P''" V1 "onQueryChange V1 (js ''Pa'') (mount V1 sample_engine None)"]
  by (simp add: world_defs)

text \<open>
  Claim C2 as stated fails: a query of two spaces has trimmed length 0, yet the effect
  sends the geocoding request and the loader is shown.
\<close>

theorem blank_query_is_fetched:
  "length (spec_trim (js ''  '')) < 2 \<and>
   map_option requests (run V1 [QueryChange (js ''  '')] (mount V1 sample_engine None)) =
     Some [GeoRequest (js ''  '')] \<and>
   screen V1 sample_engine [QueryChange (js ''  '')] None = Some [Loader] \<and>
   map_option requests (run V2 [QueryChange (js ''  '')] (mount V2 sample_engine None)) =
     Some [GeoRequest (js ''  '')] \<and>
   screen V2 sample_engine [QueryChange (js ''  '')] None = Some [Loader]"
  by (simp add: world_defs spec_trim_def is_whitespace_def)

text \<open>
  Claim C3. A run of \<open>fetchWeatherData\<close> whose controllers were aborted by the cleanup
  function leaves the error message as it is when it settles, and the error messages on
  the screen are those that were there before: an empty message stays empty.
\<close>

theorem cancelled_chain_never_errors:
  assumes "g < length (chains w)"
    and "geo_aborted (chains w ! g)" and "weather_aborted (chains w ! g)"
    and "fire v (Settle g x) w = Some w'"
  shows "error (app w') = error (app w) \<and>
         (ErrorMessage m \<in> set (render v (app w'))) = (ErrorMessage m \<in> set (render v (app w)))"
proof -
  from fire_settle_not_finished[OF assms(4)] have "stage (chains w ! g) \<noteq> Finished" by simp
  then have "awaited_aborted (chains w ! g)" using assms(2,3)
    by (simp add: awaited_aborted_def split: stage.splits)
  from settle_aborted[OF assms(1) this assms(4)] show ?thesis
    by (simp add: render_def split: option.splits)
qed

text \<open>The run of \<open>Pa\<close>, cancelled by the query \<open>Paris\<close>, settles: the error stays empty.\<close>

theorem cancelled_chain_never_errors_witness:
  "\<exists>w w'. w = onQueryChange V2 (js ''Paris'') (onQueryChange V2 (js ''Pa'') (mount V2 sample_engine None)) \<and>
     0 < length (chains w) \<and> geo_aborted (chains w ! 0) \<and> weather_aborted (chains w ! 0) \<and>
     fire V2 (Settle 0 (Rejected abort_error)) w = Some w' \<and>
     error (app w) = [] \<and> error (app w') = [] \<and>
     ErrorMessage (err_message abort_error) \<notin> set (render V2 (app w'))"
proof -
  let ?w = "onQueryChange V2 (js ''Paris'') (onQueryChange V2 (js ''Pa'') (mount V2 sample_engine None))"
  have l: "0 < length (chains ?w)" by (simp add: world_defs)
  have a: "geo_aborted (chains ?w ! 0)" and b: "weather_aborted (chains ?w ! 0)"
    by (simp_all add: world_defs)
  have e: "error (app ?w) = []" by (simp add: world_defs)
  obtain w' where f: "fire V2 (Settle 0 (Rejected abort_error)) ?w = Some w'"
    by (simp add: world_defs)
  from cancelled_chain_never_errors[OF l a b f, of "err_message abort_error"] l a b e f
  show ?thesis by (simp add: render_def)
qed

text \<open>
  Claim C4 fails on the code. \<open>getCurrentPosition\<close> has no abort controller and its
  \<open>catch\<close> block has no test for an abort, unlike \<open>fetchWeatherData\<close>: a query change
  does not cancel it. With a position lookup in flight the user types \<open>Paris\<close>; when the
  time zone lookup then fails, its message becomes the error of \<open>App\<close>, and when the
  lookups succeed, the place name and the forecast of the position are written under the
  query \<open>Paris\<close>.
\<close>

theorem current_location_chain_not_cancelled:
  "outcome V1 sample_engine [Locate (Some 52.5) (Some 13.4), QueryChange (js ''Paris''),
               SettleLocal 0 (Response False)] None =
     Some \<lparr>search = js ''Paris'', displayLocation = [], isLoading = True, weather = None,
           error = js ''Something went wrong with fetching the current timezone''\<rparr> \<and>
   outcome V1 sample_engine [Locate (Some 52.5) (Some 13.4), QueryChange (js ''Paris''),
               SettleLocal 0 (Response True),
               SettleLocal 0 (TimezoneData \<lparr>timezoneId = js ''Europe/Berlin'',
                                            countryCode = js ''DE''\<rparr>),
               SettleLocal 0 (Response True),
               SettleLocal 0 (PlaceData \<lparr>town = Some (js ''Potsdam''), county = None\<rparr>),
               SettleLocal 0 (Response True),
               SettleLocal 0 (WeatherData \<lparr>time = [js ''2024-01-01''], weathercode = [0],
                                            temperature_2m_max = [10.4],
                                            temperature_2m_min = [2.2]\<rparr>)] None =
     Some \<lparr>search = js ''Paris'',
           displayLocation = js ''Potsdam '' @ [0xD83C, 0xDDE9, 0xD83C, 0xDDEA],
           isLoading = True,
           weather = Some \<lparr>time = [js ''2024-01-01''], weathercode = [0],
                            temperature_2m_max = [10.4], temperature_2m_min = [2.2]\<rparr>,
           error = []\<rparr>"
  by (simp add: world_defs place_name_def convertToFlag_def codePoints_def toUpperCase_def
        upper_unit_def fromCodePoint1_def)

text \<open>
  A geocoding body without a \<open>results\<close> field: the run ends with the error message
  \<open>Location not found\<close> and \<open>isLoading\<close> false; it sends no further request, and the
  screen shows that message and no forecast.
\<close>

lemma no_results_location_not_found:
  "resume eng AwaitGeoJson (GeoData None) s =
     Some (Finished, s\<lparr>error := js ''Location not found'', isLoading := False\<rparr>, []) \<and>
   render v (s\<lparr>error := js ''Location not found'', isLoading := False\<rparr>) =
     [ErrorMessage (js ''Location not found'')]"
  by (simp add: catch_finally_def new_Error_def render_def js_def split: option.splits)

text \<open>
  Claim C5 fails on the code. The test \<open>!geoData.results\<close> is meant to catch a lookup
  without results, but an empty array is truthy: on a body whose \<open>results\<close> is the empty
  list the run goes on, \<open>results.at(0)\<close> is \<open>undefined\<close>, and the destructuring raises
  a TypeError. The run still ends in an error state, but the message is whatever the
  engine words that TypeError, on every engine and in both versions, and not
  \<open>Location not found\<close>.
\<close>

theorem empty_results_engine_message:
  "outcome V1 eng [QueryChange (js ''Xy''), Settle 0 (Response True),
                   Settle 0 (GeoData (Some []))] None =
     Some \<lparr>search = js ''Xy'', displayLocation = [], isLoading = False, weather = None,
           error = destructure_message eng\<rparr> \<and>
   outcome V2 eng [QueryChange (js ''Xy''), Settle 0 (Response True),
                   Settle 0 (GeoData (Some []))] None =
     Some \<lparr>search = js ''Xy'', displayLocation = [], isLoading = False, weather = None,
           error = destructure_message eng\<rparr> \<and>
   resume eng AwaitGeoJson (GeoData (Some [])) s =
     Some (Finished, s\<lparr>error := destructure_message eng, isLoading := False\<rparr>, [])"
  by (simp add: world_defs)

text \<open>
  Claim C6, as the code has it. In the first version every query change stores the new
  query, before the length test. In the second version a query change stores the query
  when it has at least two code units, and leaves the stored value alone otherwise.
\<close>

theorem query_persisted:
  "storage (onQueryChange V1 q w) = Some q \<and>
   (2 \<le> length q \<longrightarrow> storage (onQueryChange V2 q w) = Some q) \<and>
   (length q < 2 \<longrightarrow> storage (onQueryChange V2 q w) = storage w)"
  by (simp add: onQueryChange_def effect_def run_cleanup_def persist_def reset_short_def
        fetchWeatherData_def Let_def split: option.splits)

text \<open>With \<open>Berlin\<close> stored: the queries \<open>B\<close> and \<open>Bonn\<close> in either version.\<close>

theorem query_persisted_witness:
  "storage (onQueryChange V1 (js ''B'') (mount V1 sample_engine (Some (js ''Berlin'')))) = Some (js ''B'') \<and>
   2 \<le> length (js ''Bonn'') \<and>
   storage (onQueryChange V2 (js ''Bonn'') (mount V2 sample_engine (Some (js ''Berlin'')))) =
     Some (js ''Bonn'') \<and>
   length (js ''B'') < 2 \<and>
   storage (onQueryChange V2 (js ''B'') (mount V2 sample_engine (Some (js ''Berlin'')))) =
     Some (js ''Berlin'')"
  using query_persisted[of "js ''B''" "mount V1 sample_engine (Some (js ''Berlin''))"]
        query_persisted[of "js ''Bonn''" "mount V2 sample_engine (Some (js ''Berlin''))"]
        query_persisted[of "js ''B''" "mount V2 sample_engine (Some (js ''Berlin''))"]
  by (simp add: world_defs)

text \<open>
  Claim C6 as stated fails on the second version: with \<open>Berlin\<close> stored, the query
  \<open>B\<close> is not written to the store.
\<close>

theorem short_query_not_persisted:
  "map_option storage (run V2 [QueryChange (js ''B'')] (mount V2 sample_engine (Some (js ''Berlin'')))) =
     Some (Some (js ''Berlin'')) \<and>
   js ''Berlin'' \<noteq> js ''B''"
  by (simp add: world_defs)

text \<open>
  Claim C7, as the code has it. A response that is not \<open>ok\<close> ends the run with the
  message \<open>Something went wrong with fetching geolocation\<close> on the geocoding lookup and
  \<open>Something went wrong with fetching weather\<close> on the forecast lookup; the message is
  the error string, shown as it is.
\<close>

theorem failed_status_messages:
  "resume eng AwaitGeoFetch (Response False) s =
     Some (Finished,
           s\<lparr>error := js ''Something went wrong with fetching geolocation'',
             isLoading := False\<rparr>, []) \<and>
   resume eng AwaitWeatherFetch (Response False) s =
     Some (Finished,
           s\<lparr>error := js ''Something went wrong with fetching weather'',
             isLoading := False\<rparr>, []) \<and>
   render v (s\<lparr>error := js ''Something went wrong with fetching geolocation'',
               isLoading := False\<rparr>) =
     [ErrorMessage (js ''Something went wrong with fetching geolocation'')] \<and>
   render v (s\<lparr>error := js ''Something went wrong with fetching weather'',
               isLoading := False\<rparr>) =
     [ErrorMessage (js ''Something went wrong with fetching weather'')]"
  by (simp add: catch_finally_def new_Error_def render_def js_def split: option.splits)

theorem failed_status_messages_witness:
  "screen V2 sample_engine [QueryChange (js ''Xy''), Settle 0 (Response False)] None =
     Some [ErrorMessage (js ''Something went wrong with fetching geolocation'')]"
  using failed_status_messages[of sample_engine
      "\<lparr>search = js ''Xy'', displayLocation = [], isLoading = True, weather = None,
        error = []\<rparr>" V2]
  by (simp add: world_defs)

text \<open>
  Claim C7 as stated fails: the message of a failed geocoding lookup is not
  \<open>fetching geolocation failed\<close>, and that of a failed forecast lookup is not
  \<open>fetching weather failed\<close>.
\<close>

theorem failed_status_other_wording:
  "map_option error (outcome V1 sample_engine [QueryChange (js ''Xy''), Settle 0 (Response False)] None) =
     Some (js ''Something went wrong with fetching geolocation'') \<and>
   js ''Something went wrong with fetching geolocation'' \<noteq> js ''fetching geolocation failed'' \<and>
   map_option error
     (outcome V1 sample_engine [QueryChange (js ''Xy''), Settle 0 (Response True),
                  Settle 0 (GeoData (Some [\<lparr>latitude = 48.8566, longitude = 2.3522,
                                            timezone = js ''Europe/Paris'',
                                            name = js ''Paris'', country_code = js ''FR''\<rparr>])),
                  Settle 0 (Response False)] None) =
     Some (js ''Something went wrong with fetching weather'') \<and>
   js ''Something went wrong with fetching weather'' \<noteq> js ''fetching weather failed''"
  by (simp add: world_defs convertToFlag_def codePoints_def toUpperCase_def
        upper_unit_def fromCodePoint1_def)

section \<open>The forecast list\<close>

lemma array_at_nat:
  "array_at xs (int i) = (if i < length xs then Some (xs ! i) else None)"
  by (simp add: array_at_def Let_def)

lemma WeatherList_length: "length (WeatherList d) = length (time d)"
  by (simp add: WeatherList_def)

lemma WeatherList_nth:
  assumes "i < length (time d)"
  shows "WeatherList d ! i =
     \<lparr>date = time d ! i,
      max_prop = array_at (temperature_2m_max d) (int i),
      min_prop = array_at (temperature_2m_min d) (int i),
      code = array_at (weathercode d) (int i),
      isToday = (i = 0)\<rparr>"
  using assms by (simp add: WeatherList_def nth_enumerate_eq)

text \<open>
  Claim C8. \<open>WeatherList\<close> checks no lengths: it makes one \<open>Day\<close> for every date, and
  where the array of maxima, of minima or of codes is too short for the index, \<open>at\<close>
  gives \<open>undefined\<close> and nothing is raised; \<open>Day\<close> then shows \<open>NaN\<close> for the
  temperature and \<open>NOT FOUND\<close> for the icon. Within the arrays the props are their
  elements.
\<close>

theorem short_arrays_give_undefined:
  "length (WeatherList d) = length (time d) \<and>
   (\<forall>i < length (time d).
      date (WeatherList d ! i) = time d ! i \<and>
      (length (temperature_2m_max d) \<le> i \<longrightarrow>
         max_prop (WeatherList d ! i) = None \<and> ceil_max (Day (WeatherList d ! i)) = None) \<and>
      (length (temperature_2m_min d) \<le> i \<longrightarrow>
         min_prop (WeatherList d ! i) = None \<and> floor_min (Day (WeatherList d ! i)) = None) \<and>
      (length (weathercode d) \<le> i \<longrightarrow>
         code (WeatherList d ! i) = None \<and>
         icon (Day (WeatherList d ! i)) = js ''NOT FOUND'') \<and>
      (i < length (temperature_2m_max d) \<longrightarrow>
         max_prop (WeatherList d ! i) = Some (temperature_2m_max d ! i)) \<and>
      (i < length (temperature_2m_min d) \<longrightarrow>
         min_prop (WeatherList d ! i) = Some (temperature_2m_min d ! i)) \<and>
      (i < length (weathercode d) \<longrightarrow>
         code (WeatherList d ! i) = Some (weathercode d ! i)))"
  by (simp add: WeatherList_length WeatherList_nth array_at_nat Day_def getWeatherIcon_undefined)

text \<open>Two dates, one maximum, no minimum, one code: the second day has nothing to show.\<close>

theorem short_arrays_give_undefined_witness:
  "(1::nat) < length (time \<lparr>time = [js ''2024-01-01'', js ''2024-01-02''], weathercode = [3],
                             temperature_2m_max = [10.4], temperature_2m_min = []\<rparr>) \<and>
   length (WeatherList \<lparr>time = [js ''2024-01-01'', js ''2024-01-02''], weathercode = [3],
                         temperature_2m_max = [10.4], temperature_2m_min = []\<rparr>) = 2 \<and>
   Day (WeatherList \<lparr>time = [js ''2024-01-01'', js ''2024-01-02''], weathercode = [3],
                      temperature_2m_max = [10.4], temperature_2m_min = []\<rparr> ! 1) =
     \<lparr>icon = js ''NOT FOUND'', label = FormatDay (js ''2024-01-02''), floor_min = None,
       ceil_max = None\<rparr>"
proof -
  let ?d = "\<lparr>time = [js ''2024-01-01'', js ''2024-01-02''], weathercode = [3::int],
             temperature_2m_max = [10.4::real], temperature_2m_min = []::real list\<rparr>"
  note all = short_arrays_give_undefined[of ?d]
  have l: "length (WeatherList ?d) = 2" using all by simp
  have i: "(1::nat) < length (time ?d)" by simp
  note day = all[THEN conjunct2, rule_format, OF i]
  have p: "date (WeatherList ?d ! 1) = js ''2024-01-02''"
    "code (WeatherList ?d ! 1) = None"
    "max_prop (WeatherList ?d ! 1) = None"
    "min_prop (WeatherList ?d ! 1) = None"
    using day by simp_all
  have t: "isToday (WeatherList ?d ! 1) = False"
    by (simp add: WeatherList_def nth_enumerate_eq)
  have "Day (WeatherList ?d ! 1) =
     \<lparr>icon = js ''NOT FOUND'', label = FormatDay (js ''2024-01-02''), floor_min = None,
       ceil_max = None\<rparr>"
    unfolding Day_def p t by (simp add: getWeatherIcon_undefined)
  then show ?thesis using l i by simp
qed

end
